theory Spec2Isabelle
  imports Main
begin

text \<open>
  The service generator of \<open>package lib\<close>, in the variant that extracts record schemas and
  writes a definition document next to the adapter: \<open>extractStructs\<close>, \<open>parseDir\<close> with
  \<open>validateFunctionParams\<close> and \<open>unique\<close>, \<open>generateService\<close> and \<open>GenerateServices\<close>.
  The older variant without schemas has the same \<open>validateFunctionParams\<close> and \<open>unique\<close>.
\<close>

section \<open>The syntax trees the generator reads\<close>

text \<open>
  The generator works on the trees of Go's \<open>go/ast\<close> package. An expression node is one
  of the node kinds the code tells apart by type assertion (\<open>*ast.Ident\<close>,
  \<open>*ast.SelectorExpr\<close>, \<open>*ast.StarExpr\<close>), two further kinds of type expression that
  occur in record fields (\<open>*ast.ArrayType\<close>, \<open>*ast.MapType\<close>), or any other node,
  \<open>OtherExpr\<close>, numbered to keep different nodes apart. The fields are those of the Go
  structs, in their declared order; a \<open>token.Pos\<close> is a natural number.
\<close>

datatype expr =
    Ident string                        \<comment> \<open>\<open>Ident{Name}\<close>\<close>
  | SelectorExpr expr string            \<comment> \<open>\<open>SelectorExpr{X, Sel}\<close>, \<open>Sel\<close> by its name\<close>
  | StarExpr nat expr                   \<comment> \<open>\<open>StarExpr{Star, X}\<close>\<close>
  | ArrayType nat "expr option" expr    \<comment> \<open>\<open>ArrayType{Lbrack, Len, Elt}\<close>\<close>
  | MapType nat expr expr               \<comment> \<open>\<open>MapType{Map, Key, Value}\<close>\<close>
  | OtherExpr nat

text \<open>\<open>ast.Field\<close>: the names declared together and their common type.\<close>

datatype ast_field = AstField (Names: "string list") (Typ: expr)

text \<open>
  \<open>ast.FuncDecl\<close>, with the parts of its \<open>ast.FuncType\<close> inlined. \<open>Recv\<close>, \<open>Params\<close> and
  \<open>Results\<close> are pointers to field lists in Go and may be nil.
\<close>

record FuncDecl =
  Recv :: "ast_field list option"
  FuncName :: string                    \<comment> \<open>\<open>fn.Name.Name\<close>\<close>
  Params :: "ast_field list option"     \<comment> \<open>\<open>fn.Type.Params\<close>\<close>
  Results :: "ast_field list option"    \<comment> \<open>\<open>fn.Type.Results\<close>\<close>

text \<open>
  A type declaration's type is a struct type with its field list, or some other
  expression. The other specs of a general declaration (imports, values) are \<open>OtherSpec\<close>.
\<close>

datatype type_expr = StructType "ast_field list" | NonStruct expr

datatype spec = TypeSpec string type_expr | OtherSpec

datatype tok = Tok_TYPE | Tok_IMPORT | Tok_CONST | Tok_VAR

datatype decl = FuncDeclD FuncDecl | GenDecl tok "spec list" | BadDecl

text \<open>
  \<open>ast.File\<close>: the import paths as written, quotes included (\<open>imp.Path.Value\<close>), and the
  top-level declarations.
\<close>

record File =
  Imports :: "string list"
  Decls :: "decl list"

section \<open>Results\<close>

text \<open>
  A Go function that returns an error value returns \<open>Inl (Error msg)\<close>; a runtime panic
  (nil dereference, index out of range, failed type assertion), which nothing in the
  program recovers, is \<open>Inl (Panic msg)\<close>.
\<close>

datatype error = Error string | Panic string

section \<open>The data model of the generator\<close>

record Field =
  FieldName :: string                   \<comment> \<open>\<open>Name\<close>\<close>
  FieldType :: string                   \<comment> \<open>\<open>Type\<close>\<close>

record MethodInfo =
  OriginalName :: string
  Name :: string
  InputType :: string
  IsInputPointer :: bool
  InputSchema :: "Field list"
  OutputType :: string
  IsOutputPointer :: bool
  OutputSchema :: "Field list"
  IsWorkflow :: bool
  IsService :: bool

record ServiceInfo =
  ModuleName :: string
  ServiceName :: string
  ServiceStructName :: string
  Methods :: "MethodInfo list"
  IsProduction :: bool
  ServiceImports :: "string list"       \<comment> \<open>\<open>Imports\<close>\<close>

section \<open>What the code uses of Go's library\<close>

text \<open>
  A Go string is a sequence of bytes, here a \<open>string\<close>. The parts of the library whose
  result the generator cannot compute from its input are passed in: \<open>lib\<close> holds the
  Unicode case mappings for strings with a byte outside ASCII, path joining, the template
  engine run on the adapter template (\<open>wrapperTemplate\<close>, parsed and executed) and the
  YAML encoder; both of the latter return an error or the text.
\<close>

record lib =
  unicodeLower :: "string \<Rightarrow> string"
  unicodeUpper :: "string \<Rightarrow> string"
  Join :: "string list \<Rightarrow> string"
  execTemplate :: "ServiceInfo \<Rightarrow> string + string"
  yamlMarshal :: "ServiceInfo \<Rightarrow> string + string"

definition isASCII :: "string \<Rightarrow> bool" where
  "isASCII s = list_all (\<lambda>c. (of_char c :: nat) < 128) s"

definition lowerByte :: "char \<Rightarrow> char" where
  "lowerByte c =
     (let n = (of_char c :: nat) in if 65 \<le> n \<and> n \<le> 90 then char_of (n + 32) else c)"

definition upperByte :: "char \<Rightarrow> char" where
  "upperByte c =
     (let n = (of_char c :: nat) in if 97 \<le> n \<and> n \<le> 122 then char_of (n - 32) else c)"

text \<open>\<open>strings.ToLower\<close> and \<open>strings.ToUpper\<close>: bytewise on an ASCII string.\<close>

definition ToLower :: "lib \<Rightarrow> string \<Rightarrow> string" where
  "ToLower l s = (if isASCII s then map lowerByte s else unicodeLower l s)"

definition ToUpper :: "lib \<Rightarrow> string \<Rightarrow> string" where
  "ToUpper l s = (if isASCII s then map upperByte s else unicodeUpper l s)"

text \<open>
  \<open>unicode.IsLower(rune(b))\<close> for a byte \<open>b\<close>: the rune is below 256, where the answer is
  read from the Latin-1 property table (the letters a to z, the micro sign, and the
  lower-case letters from 0xDF on, the division sign 0xF7 excepted).
\<close>

definition IsLower :: "char \<Rightarrow> bool" where
  "IsLower c =
     (let n = (of_char c :: nat)
      in (97 \<le> n \<and> n \<le> 122) \<or> n = 181 \<or> (223 \<le> n \<and> n \<le> 246) \<or> (248 \<le> n \<and> n \<le> 255))"

text \<open>\<open>string(b)\<close> for a byte \<open>b\<close>: the UTF-8 encoding of the code point \<open>b\<close>.\<close>

definition stringOfByte :: "char \<Rightarrow> string" where
  "stringOfByte c =
     (let n = (of_char c :: nat)
      in if n < 128 then [c] else [char_of (192 + n div 64), char_of (128 + n mod 64)])"

definition HasSuffix :: "string \<Rightarrow> string \<Rightarrow> bool" where
  "HasSuffix s suffix =
     (length suffix \<le> length s \<and> drop (length s - length suffix) s = suffix)"

text \<open>\<open>strings.Trim(s, cutset)\<close> for a cutset of one byte.\<close>

definition Trim :: "string \<Rightarrow> char \<Rightarrow> string" where
  "Trim s c = rev (dropWhile (\<lambda>x. x = c) (rev (dropWhile (\<lambda>x. x = c) s)))"

text \<open>\<open>strings.Split(s, sep)\<close> for a separator of one byte.\<close>

fun Split :: "string \<Rightarrow> char \<Rightarrow> string list" where
  "Split [] sep = [[]]"
| "Split (c # cs) sep =
     (if c = sep then [] # Split cs sep
      else (case Split cs sep of [] \<Rightarrow> [[c]] | w # ws \<Rightarrow> (c # w) # ws))"

text \<open>Decimal digits of a number, as \<open>%v\<close> prints a \<open>token.Pos\<close>.\<close>

fun decimal :: "nat \<Rightarrow> string" where
  "decimal n =
     (if n < 10 then [''0123456789'' ! n]
      else decimal (n div 10) @ [''0123456789'' ! (n mod 10)])"

declare decimal.simps [simp del]

subsection \<open>Printing a syntax node with \<open>fmt.Sprint\<close>\<close>

text \<open>
  \<open>fmt.Sprint\<close> prints its operand with \<open>%v\<close>. \<open>*ast.Ident\<close> has a \<open>String\<close> method,
  which returns the name; no other node has one. A pointer to a struct prints, at top
  level, as \<open>&{...}\<close> around the \<open>%v\<close> of the fields, separated by spaces; inside a
  struct a pointer prints as its address (unless it has a \<open>String\<close> method), and a nil
  interface as \<open><nil>\<close>. The addresses are those of one run of the program: \<open>heap\<close>
  holds the printed address of each node, and the printed form of the nodes that are not
  modelled further. The address is given by the node's value, so two nodes of the same
  shape are given the same address here, where Go gives each its own; the properties below
  compare no two addresses of one heap.
\<close>

record heap =
  ptr :: "expr \<Rightarrow> string"
  dump :: "nat \<Rightarrow> string"

definition nested :: "heap \<Rightarrow> expr \<Rightarrow> string" where
  "nested h e = (case e of Ident n \<Rightarrow> n | _ \<Rightarrow> ptr h e)"

definition nestedOpt :: "heap \<Rightarrow> expr option \<Rightarrow> string" where
  "nestedOpt h e = (case e of None \<Rightarrow> ''<nil>'' | Some x \<Rightarrow> nested h x)"

definition Sprint :: "heap \<Rightarrow> expr \<Rightarrow> string" where
  "Sprint h e =
     (case e of
        Ident n \<Rightarrow> n
      | SelectorExpr x sel \<Rightarrow> ''&{'' @ nested h x @ '' '' @ sel @ ''}''
      | StarExpr star x \<Rightarrow> ''&{'' @ decimal star @ '' '' @ nested h x @ ''}''
      | ArrayType lbrack len elt \<Rightarrow>
          ''&{'' @ decimal lbrack @ '' '' @ nestedOpt h len @ '' '' @ nested h elt @ ''}''
      | MapType m k v \<Rightarrow>
          ''&{'' @ decimal m @ '' '' @ nested h k @ '' '' @ nested h v @ ''}''
      | OtherExpr n \<Rightarrow> dump h n)"

section \<open>The record extractor\<close>

text \<open>
  A directory walk calls its callback once per entry, with the entry's path, its name,
  whether it is a directory, and the error met on reaching it, if any. \<open>entryParse\<close> is
  what \<open>parser.ParseFile\<close> returns for the path: an error or the file's tree.
\<close>

record walk_entry =
  entryPath :: string
  entryName :: string
  entryIsDir :: bool
  entryErr :: "string option"
  entryParse :: "string + File"

type_synonym structDefs = "string \<rightharpoonup> Field list"

text \<open>The loop over \<open>structType.Fields.List\<close>.\<close>

fun structFields :: "heap \<Rightarrow> ast_field list \<Rightarrow> Field list" where
  "structFields h [] = []"
| "structFields h (f # fs) =
     (case Names f of
        [] \<Rightarrow> structFields h fs
      | n # _ \<Rightarrow> \<lparr>FieldName = n, FieldType = Sprint h (Typ f)\<rparr> # structFields h fs)"

text \<open>The loop over \<open>g.Specs\<close>.\<close>

fun extractSpecs :: "heap \<Rightarrow> spec list \<Rightarrow> structDefs \<Rightarrow> structDefs" where
  "extractSpecs h [] defs = defs"
| "extractSpecs h (s # ss) defs =
     (case s of
        TypeSpec name (StructType fs) \<Rightarrow> extractSpecs h ss (defs(name \<mapsto> structFields h fs))
      | _ \<Rightarrow> extractSpecs h ss defs)"

text \<open>The loop over \<open>file.Decls\<close>.\<close>

fun extractDecls :: "heap \<Rightarrow> decl list \<Rightarrow> structDefs \<Rightarrow> structDefs" where
  "extractDecls h [] defs = defs"
| "extractDecls h (d # ds) defs =
     (case d of
        GenDecl t specs \<Rightarrow>
          if t = Tok_TYPE then extractDecls h ds (extractSpecs h specs defs)
          else extractDecls h ds defs
      | _ \<Rightarrow> extractDecls h ds defs)"

text \<open>
  The walk of \<open>extractStructs\<close>: an entry with an error ends the walk with that error;
  directories and files that are not Go files are passed over, and so is a file that does
  not parse.
\<close>

fun extractWalk :: "heap \<Rightarrow> walk_entry list \<Rightarrow> structDefs \<Rightarrow> structDefs \<times> string option" where
  "extractWalk h [] defs = (defs, None)"
| "extractWalk h (e # es) defs =
     (if entryErr e \<noteq> None \<or> entryIsDir e \<or> \<not> HasSuffix (entryPath e) ''.go'' then
        (case entryErr e of
           Some msg \<Rightarrow> (defs, Some msg)
         | None \<Rightarrow> extractWalk h es defs)
      else
        (case entryParse e of
           Inl _ \<Rightarrow> extractWalk h es defs
         | Inr file \<Rightarrow> extractWalk h es (extractDecls h (Decls file) defs)))"

definition extractStructs :: "heap \<Rightarrow> walk_entry list \<Rightarrow> structDefs \<times> string option" where
  "extractStructs h root = extractWalk h root Map.empty"

section \<open>The convention parser\<close>

definition validateFunctionParams :: "FuncDecl \<Rightarrow> error + string" where
  "validateFunctionParams fn =
     (case Params fn of
        None \<Rightarrow> Inl (Error (''function '' @ FuncName fn @ '' does not have enough parameters''))
      | Some ps \<Rightarrow>
          if length ps < 2 then
            Inl (Error (''function '' @ FuncName fn @ '' does not have enough parameters''))
          else
            (case Typ (ps ! 0) of
               SelectorExpr x sel \<Rightarrow>
                 (case x of
                    Ident pkg \<Rightarrow>
                      if pkg = ''polycode'' then
                        if sel = ''ServiceContext'' then Inr ''Service''
                        else if sel = ''WorkflowContext'' then Inr ''Workflow''
                        else Inl (Error (''function '' @ FuncName fn @
                          '': first parameter must be polycode.ServiceContext or polycode.WorkflowContext''))
                      else Inl (Error (''function '' @ FuncName fn @
                        '': first parameter must be polycode.ServiceContext or polycode.WorkflowContext''))
                  | _ \<Rightarrow> Inl (Panic ''interface conversion: ast.Expr is not *ast.Ident''))
             | _ \<Rightarrow> Inl (Error (''function '' @ FuncName fn @
                 '': first parameter must be polycode.ServiceContext or polycode.WorkflowContext''))))"

text \<open>
  \<open>fmt.Sprintf("%s.%s", selectorExpr.X.(*ast.Ident).Name, selectorExpr.Sel.Name)\<close>: the
  type assertion has no second result, so it panics on any other node.
\<close>

definition qualifiedName :: "expr \<Rightarrow> string \<Rightarrow> error + string" where
  "qualifiedName x sel =
     (case x of
        Ident pkg \<Rightarrow> Inr (pkg @ ''.'' @ sel)
      | _ \<Rightarrow> Inl (Panic ''interface conversion: ast.Expr is not *ast.Ident''))"

text \<open>
  The resolution of a parameter or result type, which \<open>parseDir\<close> writes out once for the
  second parameter and once for the first result: the type name, empty when the shape is
  not recognised, and whether the type is a pointer.
\<close>

definition resolveType :: "expr \<Rightarrow> error + (string \<times> bool)" where
  "resolveType t =
     (case t of
        StarExpr _ x \<Rightarrow>
          (case x of
             SelectorExpr sx sel \<Rightarrow>
               (case qualifiedName sx sel of Inl e \<Rightarrow> Inl e | Inr n \<Rightarrow> Inr (n, True))
           | _ \<Rightarrow> Inr ([], True))
      | SelectorExpr sx sel \<Rightarrow>
          (case qualifiedName sx sel of Inl e \<Rightarrow> Inl e | Inr n \<Rightarrow> Inr (n, False))
      | _ \<Rightarrow> Inr ([], False))"

text \<open>Indexing a Go map: the zero value, a nil slice, for a key that is absent.\<close>

definition lookupDefs :: "structDefs \<Rightarrow> string \<Rightarrow> Field list" where
  "lookupDefs defs k = (case defs k of None \<Rightarrow> [] | Some fs \<Rightarrow> fs)"

text \<open>
  The body of the loop over \<open>node.Decls\<close> for a function declaration without receiver:
  an error or panic that ends the walk, or the method appended, if any. The loop passes
  over a function when \<open>unicode.IsLower\<close> holds of the first byte of its name, read as a
  character of its own (\<open>rune(OriginalName[0])\<close>).
\<close>

definition processFunc :: "lib \<Rightarrow> structDefs \<Rightarrow> FuncDecl \<Rightarrow> error + MethodInfo option" where
  "processFunc l defs fn =
     (case FuncName fn of
        [] \<Rightarrow> Inl (Panic ''index out of range'')
      | c # _ \<Rightarrow>
          if IsLower c then Inr None
          else
            (case validateFunctionParams fn of
               Inl e \<Rightarrow> Inl e
             | Inr contextType \<Rightarrow>
                 (case Params fn of
                    None \<Rightarrow> Inl (Panic ''nil pointer dereference'')
                  | Some ps \<Rightarrow>
                      if length ps < 2 then Inl (Panic ''index out of range'')
                      else
                        (case resolveType (Typ (ps ! 1)) of
                           Inl e \<Rightarrow> Inl e
                         | Inr (inputType, isInputPointer) \<Rightarrow>
                             (case Results fn of
                                None \<Rightarrow> Inl (Panic ''nil pointer dereference'')
                              | Some [] \<Rightarrow> Inl (Panic ''index out of range'')
                              | Some (r # _) \<Rightarrow>
                                  (case resolveType (Typ r) of
                                     Inl e \<Rightarrow> Inl e
                                   | Inr (outputType, isOutputPointer) \<Rightarrow>
                                       if inputType \<noteq> [] \<and> outputType \<noteq> [] then
                                         Inr (Some \<lparr>OriginalName = FuncName fn,
                                           Name = ToLower l (FuncName fn),
                                           InputType = inputType,
                                           IsInputPointer = isInputPointer,
                                           InputSchema = lookupDefs defs inputType,
                                           OutputType = outputType,
                                           IsOutputPointer = isOutputPointer,
                                           OutputSchema = lookupDefs defs outputType,
                                           IsWorkflow = (contextType = ''Workflow''),
                                           IsService = (contextType = ''Service'')\<rparr>)
                                       else Inr None))))))"

text \<open>The loop over \<open>node.Decls\<close>, with the methods collected so far.\<close>

fun parseDecls :: "lib \<Rightarrow> structDefs \<Rightarrow> decl list \<Rightarrow> MethodInfo list \<Rightarrow> error + MethodInfo list" where
  "parseDecls l defs [] methods = Inr methods"
| "parseDecls l defs (d # ds) methods =
     (case d of
        FuncDeclD fn \<Rightarrow>
          if Recv fn = None then
            (case processFunc l defs fn of
               Inl e \<Rightarrow> Inl e
             | Inr None \<Rightarrow> parseDecls l defs ds methods
             | Inr (Some m) \<Rightarrow> parseDecls l defs ds (methods @ [m]))
          else parseDecls l defs ds methods
      | _ \<Rightarrow> parseDecls l defs ds methods)"

text \<open>
  The walk of \<open>parseDir\<close>, with the methods and imports collected so far: an entry with
  an error ends the walk, and so does a Go file (other than a test file) that does not
  parse.
\<close>

fun parseWalk :: "lib \<Rightarrow> structDefs \<Rightarrow> walk_entry list \<Rightarrow> MethodInfo list \<times> string list \<Rightarrow>
    error + MethodInfo list \<times> string list" where
  "parseWalk l defs [] acc = Inr acc"
| "parseWalk l defs (e # es) (methods, imports) =
     (case entryErr e of
        Some msg \<Rightarrow> Inl (Error msg)
      | None \<Rightarrow>
          if HasSuffix (entryName e) ''.go'' \<and> \<not> HasSuffix (entryName e) ''_test.go'' then
            (case entryParse e of
               Inl msg \<Rightarrow> Inl (Error msg)
             | Inr node \<Rightarrow>
                 (case parseDecls l defs (Decls node) methods of
                    Inl err \<Rightarrow> Inl err
                  | Inr methods' \<Rightarrow>
                      parseWalk l defs es
                        (methods', imports @ map (\<lambda>v. Trim v (CHR 0x22)) (Imports node))))
          else parseWalk l defs es (methods, imports))"

text \<open>\<open>unique\<close>: the map of the strings seen and the result so far.\<close>

fun uniqueLoop :: "string list \<Rightarrow> (string \<rightharpoonup> bool) \<Rightarrow> string list \<Rightarrow> string list" where
  "uniqueLoop [] uniqueStrings result = result"
| "uniqueLoop (str # strs) uniqueStrings result =
     (if uniqueStrings str = None then
        uniqueLoop strs (uniqueStrings(str \<mapsto> True)) (result @ [str])
      else uniqueLoop strs uniqueStrings result)"

definition unique :: "string list \<Rightarrow> string list" where
  "unique strings = uniqueLoop strings Map.empty []"

definition parseDir :: "lib \<Rightarrow> structDefs \<Rightarrow> walk_entry list \<Rightarrow>
    error + MethodInfo list \<times> string list" where
  "parseDir l defs serviceFolder =
     (case parseWalk l defs serviceFolder ([], []) of
        Inl err \<Rightarrow> Inl err
      | Inr (methods, imports) \<Rightarrow> Inr (methods, unique imports))"

section \<open>Generation\<close>

definition capitalize :: "lib \<Rightarrow> string \<Rightarrow> string" where
  "capitalize l word =
     (case word of [] \<Rightarrow> [] | c # rest \<Rightarrow> ToUpper l (stringOfByte c) @ rest)"

definition toPascalCase :: "lib \<Rightarrow> string \<Rightarrow> string" where
  "toPascalCase l input = concat (map (capitalize l) (Split input (CHR ''-'')))"

text \<open>
  What a run does to the file system is the list of the calls that succeeded, in order:
  directories made, files written with their content, and the formatter run on a
  directory. Whether a call fails is decided by the operating system, \<open>os\<close>, which gives
  the error message of a failing call.
\<close>

datatype effect = MkdirAll string | WriteFile string string | GoImports string

record os =
  mkdirAllErr :: "string \<Rightarrow> string option"
  writeFileErr :: "string \<Rightarrow> string \<Rightarrow> string option"
  goimportsErr :: "string \<Rightarrow> string option"

definition generateServiceCode :: "lib \<Rightarrow> ServiceInfo \<Rightarrow> string + string" where
  "generateServiceCode l serviceInfo = execTemplate l serviceInfo"

definition writeServiceDefinition :: "lib \<Rightarrow> os \<Rightarrow> string \<Rightarrow> string \<Rightarrow> ServiceInfo \<Rightarrow>
    error option \<times> effect list" where
  "writeServiceDefinition l sys appPath serviceName serviceInfo =
     (let outputDir = Join l [appPath, ''.polycode/definition''] in
      case mkdirAllErr sys outputDir of
        Some msg \<Rightarrow> (Some (Error msg), [])
      | None \<Rightarrow>
          (case yamlMarshal l serviceInfo of
             Inl msg \<Rightarrow> (Some (Error msg), [MkdirAll outputDir])
           | Inr ymlData \<Rightarrow>
               (let serviceFile = Join l [outputDir, serviceName @ ''.yml''] in
                case writeFileErr sys serviceFile ymlData of
                  Some msg \<Rightarrow> (Some (Error msg), [MkdirAll outputDir])
                | None \<Rightarrow> (None, [MkdirAll outputDir, WriteFile serviceFile ymlData]))))"

text \<open>
  \<open>generateService\<close>, with the walk of \<open>servicePath\<close> in place of the path. A slice is
  nil exactly when nothing was appended to it, so \<open>methods == nil\<close> is \<open>methods = []\<close>.
\<close>

definition generateService :: "lib \<Rightarrow> os \<Rightarrow> string \<Rightarrow> walk_entry list \<Rightarrow> string \<Rightarrow> string \<Rightarrow>
    structDefs \<Rightarrow> bool \<Rightarrow> error option \<times> effect list" where
  "generateService l sys appPath servicePath moduleName serviceName defs prodFlag =
     (case parseDir l defs servicePath of
        Inl err \<Rightarrow> (Some err, [])
      | Inr (methods, imports) \<Rightarrow>
          if methods = [] then (None, [])
          else
            (let serviceInfo = \<lparr>ModuleName = moduleName, ServiceName = serviceName,
                   ServiceStructName = toPascalCase l serviceName, Methods = methods,
                   IsProduction = prodFlag, ServiceImports = imports\<rparr> in
             case generateServiceCode l serviceInfo of
               Inl msg \<Rightarrow> (Some (Error msg), [])
             | Inr generatedCode \<Rightarrow>
                 (case mkdirAllErr sys (appPath @ ''/.polycode'') of
                    Some msg \<Rightarrow> (Some (Error msg), [])
                  | None \<Rightarrow>
                      (case writeFileErr sys (appPath @ ''/.polycode/'' @ serviceName @ ''.go'')
                              generatedCode of
                         Some msg \<Rightarrow> (Some (Error msg), [MkdirAll (appPath @ ''/.polycode'')])
                       | None \<Rightarrow>
                           (case writeServiceDefinition l sys appPath serviceName serviceInfo of
                              (result, effects) \<Rightarrow>
                                (result,
                                 [MkdirAll (appPath @ ''/.polycode''),
                                  WriteFile (appPath @ ''/.polycode/'' @ serviceName @ ''.go'')
                                    generatedCode] @ effects))))))"

text \<open>
  What a run finds in the project: the result of \<open>getModuleName\<close> on the manifest, the
  walk of the project root, whether the services folder is missing, the result of reading
  it (each entry with its name, whether it is a directory, and the walk of it), and
  whether the output folder is missing when the run starts.
\<close>

record project =
  moduleResult :: "string + string"
  rootWalk :: "walk_entry list"
  servicesMissing :: bool
  servicesEntries :: "string + (string \<times> bool \<times> walk_entry list) list"
  polycodeMissing :: bool

text \<open>The loop over the entries of the services folder.\<close>

fun generateEntries :: "lib \<Rightarrow> os \<Rightarrow> string \<Rightarrow> string \<Rightarrow> structDefs \<Rightarrow> bool \<Rightarrow>
    (string \<times> bool \<times> walk_entry list) list \<Rightarrow> error option \<times> effect list" where
  "generateEntries l sys appPath moduleName defs prodFlag [] = (None, [])"
| "generateEntries l sys appPath moduleName defs prodFlag ((name, isDir, servicePath) # entries) =
     (if isDir then
        (case generateService l sys appPath servicePath moduleName name defs prodFlag of
           (Some err, effects) \<Rightarrow> (Some err, effects)
         | (None, effects) \<Rightarrow>
             (case generateEntries l sys appPath moduleName defs prodFlag entries of
                (result, effects') \<Rightarrow> (result, effects @ effects')))
      else generateEntries l sys appPath moduleName defs prodFlag entries)"

definition isMkdirAll :: "effect \<Rightarrow> bool" where
  "isMkdirAll e = (case e of MkdirAll _ \<Rightarrow> True | _ \<Rightarrow> False)"

text \<open>
  \<open>GenerateServices\<close>. The output folder exists at the end if it existed at the start or
  a directory was made in it.
\<close>

definition GenerateServices :: "lib \<Rightarrow> os \<Rightarrow> heap \<Rightarrow> project \<Rightarrow> string \<Rightarrow> bool \<Rightarrow>
    error option \<times> effect list" where
  "GenerateServices l sys h p appPath prodFlag =
     (case moduleResult p of
        Inl msg \<Rightarrow> (Some (Error msg), [])
      | Inr moduleName \<Rightarrow>
          (case extractStructs h (rootWalk p) of
             (defs, Some msg) \<Rightarrow> (Some (Error msg), [])
           | (defs, None) \<Rightarrow>
               (case (if servicesMissing p then (None, [])
                      else (case servicesEntries p of
                              Inl msg \<Rightarrow> (Some (Error msg), [])
                            | Inr entries \<Rightarrow>
                                generateEntries l sys appPath moduleName defs prodFlag entries)) of
                  (Some err, effects) \<Rightarrow> (Some err, effects)
                | (None, effects) \<Rightarrow>
                    if \<not> (polycodeMissing p \<and> \<not> list_ex isMkdirAll effects) then
                      (case goimportsErr sys (Join l [appPath, ''.polycode'']) of
                         Some msg \<Rightarrow> (Some (Error msg), effects)
                       | None \<Rightarrow> (None, effects @ [GoImports (Join l [appPath, ''.polycode''])]))
                    else (None, effects))))"

section \<open>Notions of the specification\<close>

text \<open>
  The import list the specification asks for: each path once, at the place of its first
  occurrence.
\<close>

fun firstOccurrences :: "string list \<Rightarrow> string list" where
  "firstOccurrences [] = []"
| "firstOccurrences (p # ps) = p # firstOccurrences (filter (\<lambda>q. q \<noteq> p) ps)"

text \<open>
  The sequence of import paths collected across the files of a service folder: those of
  the Go files that are not test files, in the order of the walk.
\<close>

fun collectedImports :: "walk_entry list \<Rightarrow> string list" where
  "collectedImports [] = []"
| "collectedImports (e # es) =
     (if HasSuffix (entryName e) ''.go'' \<and> \<not> HasSuffix (entryName e) ''_test.go'' then
        (case entryParse e of
           Inl _ \<Rightarrow> []
         | Inr node \<Rightarrow> map (\<lambda>v. Trim v (CHR 0x22)) (Imports node))
      else []) @ collectedImports es"

text \<open>
  Attaching the schemas to a method by looking its type names up in the record schema.
\<close>

definition attachSchemas :: "structDefs \<Rightarrow> MethodInfo \<Rightarrow> MethodInfo" where
  "attachSchemas defs m =
     m\<lparr>InputSchema := lookupDefs defs (InputType m),
       OutputSchema := lookupDefs defs (OutputType m)\<rparr>"

text \<open>
  The number of parameters a parameter list declares: a group without names declares one,
  a group with names one per name.
\<close>

definition numParams :: "ast_field list \<Rightarrow> nat" where
  "numParams ps = sum_list (map (\<lambda>f. max 1 (length (Names f))) ps)"

text \<open>
  A type that is a qualified reference into the recognised namespace naming one of the two
  context capabilities.
\<close>

definition isContextType :: "expr \<Rightarrow> bool" where
  "isContextType t =
     (case t of
        SelectorExpr x sel \<Rightarrow>
          (case x of
             Ident pkg \<Rightarrow>
               pkg = ''polycode'' \<and> (sel = ''ServiceContext'' \<or> sel = ''WorkflowContext'')
           | _ \<Rightarrow> False)
      | _ \<Rightarrow> False)"

text \<open>
  A type whose qualifier, if it is a selector, is a plain identifier: every type but a
  selector on something else.
\<close>

definition plainQualifier :: "expr \<Rightarrow> bool" where
  "plainQualifier t =
     (case t of
        SelectorExpr x sel \<Rightarrow> (case x of Ident pkg \<Rightarrow> True | _ \<Rightarrow> False)
      | _ \<Rightarrow> True)"

text \<open>
  A parameter list as Go's parser builds it: the parser reads a qualified type name as an
  identifier selected from an identifier (\<open>parseTypeName\<close>), and reports anything longer,
  such as \<open>a.b.C\<close>, as a syntax error; so no parameter has as its type a selector on
  anything but a plain identifier.
\<close>

definition parsedParams :: "FuncDecl \<Rightarrow> bool" where
  "parsedParams fn =
     (case Params fn of
        None \<Rightarrow> True
      | Some ps \<Rightarrow> list_all (\<lambda>p. plainQualifier (Typ p)) ps)"

text \<open>
  The first parameter is invalid: there are fewer than two parameters, or the type of the
  first is not a context type.
\<close>

definition firstParamInvalid :: "FuncDecl \<Rightarrow> bool" where
  "firstParamInvalid fn =
     (case Params fn of
        None \<Rightarrow> True
      | Some ps \<Rightarrow>
          numParams ps < 2 \<or>
          (case ps of
             [] \<Rightarrow> True
           | p # _ \<Rightarrow> \<not> isContextType (Typ p)))"

text \<open>
  The first character of a name: the code point that its first bytes encode in UTF-8. A
  function is exported in Go when the first character of its name is an upper-case
  letter.
\<close>

definition firstRune :: "string \<Rightarrow> nat option" where
  "firstRune s =
     (case s of
        [] \<Rightarrow> None
      | b0 # rest \<Rightarrow>
          (let n0 = (of_char b0 :: nat) in
           if n0 < 128 then Some n0
           else if n0 < 192 then None
           else if n0 < 224 then
             (case rest of
                b1 # _ \<Rightarrow> Some ((n0 - 192) * 64 + (of_char b1 :: nat) mod 64)
              | _ \<Rightarrow> None)
           else if n0 < 240 then
             (case rest of
                b1 # b2 # _ \<Rightarrow>
                  Some ((n0 - 224) * 4096 + ((of_char b1 :: nat) mod 64) * 64 +
                    (of_char b2 :: nat) mod 64)
              | _ \<Rightarrow> None)
           else if n0 < 248 then
             (case rest of
                b1 # b2 # b3 # _ \<Rightarrow>
                  Some ((n0 - 240) * 262144 + ((of_char b1 :: nat) mod 64) * 4096 +
                    ((of_char b2 :: nat) mod 64) * 64 + (of_char b3 :: nat) mod 64)
              | _ \<Rightarrow> None)
           else None))"

text \<open>
  The names of the struct types declared in the files of a walk. In a tree that Go's
  parser built they are identifiers, which hold no dot.
\<close>

fun specTypeNames :: "spec list \<Rightarrow> string list" where
  "specTypeNames [] = []"
| "specTypeNames (s # ss) =
     (case s of
        TypeSpec name (StructType fs) \<Rightarrow> name # specTypeNames ss
      | _ \<Rightarrow> specTypeNames ss)"

fun declTypeNames :: "decl list \<Rightarrow> string list" where
  "declTypeNames [] = []"
| "declTypeNames (d # ds) =
     (case d of
        GenDecl t specs \<Rightarrow> specTypeNames specs @ declTypeNames ds
      | _ \<Rightarrow> declTypeNames ds)"

fun walkTypeNames :: "walk_entry list \<Rightarrow> string list" where
  "walkTypeNames [] = []"
| "walkTypeNames (e # es) =
     (case entryParse e of
        Inl _ \<Rightarrow> walkTypeNames es
      | Inr file \<Rightarrow> declTypeNames (Decls file) @ walkTypeNames es)"

definition dotFree :: "string \<Rightarrow> bool" where
  "dotFree name = (CHR ''.'' \<notin> set name)"

definition typeNamesDotFree :: "walk_entry list \<Rightarrow> bool" where
  "typeNamesDotFree root = list_all dotFree (walkTypeNames root)"

text \<open>The error that ends a walk: that of the first entry that has one.\<close>

fun walkError :: "walk_entry list \<Rightarrow> string option" where
  "walkError [] = None"
| "walkError (e # es) = (case entryErr e of Some msg \<Rightarrow> Some msg | None \<Rightarrow> walkError es)"

section \<open>An example project\<close>

text \<open>
  A library that leaves non-ASCII strings alone, joins paths with a slash, and renders a
  service by its struct name and its methods' names; an operating system on which every
  call succeeds; two heaps with different addresses.
\<close>

definition exLib :: lib where
  "exLib = \<lparr>unicodeLower = (\<lambda>s. s), unicodeUpper = (\<lambda>s. s),
     Join = (\<lambda>parts. foldr (\<lambda>a b. if b = [] then a else a @ ''/'' @ b) parts []),
     execTemplate = (\<lambda>info. Inr (ServiceStructName info @ concat (map Name (Methods info)))),
     yamlMarshal = (\<lambda>info. Inr (ServiceName info @ concat (map OriginalName (Methods info))))\<rparr>"

definition exOs :: os where
  "exOs = \<lparr>mkdirAllErr = (\<lambda>path. None), writeFileErr = (\<lambda>path content. None),
     goimportsErr = (\<lambda>path. None)\<rparr>"

definition exHeap :: heap where
  "exHeap = \<lparr>ptr = (\<lambda>e. ''0xc000012340''), dump = (\<lambda>n. ''&{0xc000012340}'')\<rparr>"

definition exHeap' :: heap where
  "exHeap' = \<lparr>ptr = (\<lambda>e. ''0xc0000a8000''), dump = (\<lambda>n. ''&{0xc0000a8000}'')\<rparr>"

text \<open>
  \<^verbatim>\<open>func DoThing(ctx polycode.ServiceContext, req *pkg.Req) (pkg.Resp, error)\<close>
\<close>

definition exDoThing :: FuncDecl where
  "exDoThing = \<lparr>Recv = None, FuncName = ''DoThing'',
     Params = Some [AstField [''ctx''] (SelectorExpr (Ident ''polycode'') ''ServiceContext''),
                    AstField [''req''] (StarExpr 52 (SelectorExpr (Ident ''pkg'') ''Req''))],
     Results = Some [AstField [] (SelectorExpr (Ident ''pkg'') ''Resp''),
                     AstField [] (Ident ''error'')]\<rparr>"

text \<open>
  \<^verbatim>\<open>func Ping(ctx polycode.ServiceContext, req *pkg.Req)\<close>: no result.
\<close>

definition exPing :: FuncDecl where
  "exPing = \<lparr>Recv = None, FuncName = ''Ping'',
     Params = Some [AstField [''ctx''] (SelectorExpr (Ident ''polycode'') ''ServiceContext''),
                    AstField [''req''] (StarExpr 49 (SelectorExpr (Ident ''pkg'') ''Req''))],
     Results = None\<rparr>"

text \<open>
  \<^verbatim>\<open>func Count(ctx polycode.WorkflowContext, n int) (pkg.Resp, error)\<close>: the second
  parameter is not a qualified reference.
\<close>

definition exCount :: FuncDecl where
  "exCount = \<lparr>Recv = None, FuncName = ''Count'',
     Params = Some [AstField [''ctx''] (SelectorExpr (Ident ''polycode'') ''WorkflowContext''),
                    AstField [''n''] (Ident ''int'')],
     Results = Some [AstField [] (SelectorExpr (Ident ''pkg'') ''Resp''),
                     AstField [] (Ident ''error'')]\<rparr>"

text \<open>
  \<^verbatim>\<open>func Start(ctx *polycode.ServiceContext, req *pkg.Req) (pkg.Resp, error)\<close>: the first
  parameter is a pointer.
\<close>

definition exStart :: FuncDecl where
  "exStart = \<lparr>Recv = None, FuncName = ''Start'',
     Params = Some [AstField [''ctx'']
                      (StarExpr 19 (SelectorExpr (Ident ''polycode'') ''ServiceContext'')),
                    AstField [''req''] (StarExpr 50 (SelectorExpr (Ident ''pkg'') ''Req''))],
     Results = Some [AstField [] (SelectorExpr (Ident ''pkg'') ''Resp''),
                     AstField [] (Ident ''error'')]\<rparr>"

text \<open>
  Two functions whose name begins with the letter U+1E00 (Latin capital letter A with
  ring below, the bytes E1 B8 80 in UTF-8) and goes on with \<open>bc\<close>, exported therefore:
  one with the parameters and results of \<open>DoThing\<close>, one with the single parameter
  \<^verbatim>\<open>n int\<close> and no result.
\<close>

definition exUpper :: FuncDecl where
  "exUpper = \<lparr>Recv = None, FuncName = [CHR 0xE1, CHR 0xB8, CHR 0x80] @ ''bc'',
     Params = Some [AstField [''ctx''] (SelectorExpr (Ident ''polycode'') ''ServiceContext''),
                    AstField [''req''] (StarExpr 50 (SelectorExpr (Ident ''pkg'') ''Req''))],
     Results = Some [AstField [] (SelectorExpr (Ident ''pkg'') ''Resp''),
                     AstField [] (Ident ''error'')]\<rparr>"

definition exUpperOne :: FuncDecl where
  "exUpperOne = \<lparr>Recv = None, FuncName = [CHR 0xE1, CHR 0xB8, CHR 0x80] @ ''bc'',
     Params = Some [AstField [''n''] (Ident ''int'')],
     Results = None\<rparr>"

text \<open>
  A declaration whose first parameter has a selector on a selector as its type, a tree
  that Go's parser does not build.
\<close>

definition exDouble :: FuncDecl where
  "exDouble = \<lparr>Recv = None, FuncName = ''Run'',
     Params = Some [AstField [''ctx''] (SelectorExpr (SelectorExpr (Ident ''a'') ''b'') ''C''),
                    AstField [''req''] (StarExpr 40 (SelectorExpr (Ident ''pkg'') ''Req''))],
     Results = Some [AstField [] (SelectorExpr (Ident ''pkg'') ''Resp''),
                     AstField [] (Ident ''error'')]\<rparr>"

text \<open>
  \<^verbatim>\<open>type Req struct { A, B int; Ref pkg.T; Tags []string }\<close>
\<close>

definition exReqFields :: "ast_field list" where
  "exReqFields = [AstField [''A'', ''B''] (Ident ''int''),
     AstField [''Ref''] (SelectorExpr (Ident ''pkg'') ''T''),
     AstField [''Tags''] (ArrayType 61 None (Ident ''string''))]"

text \<open>The method that the parser makes of \<open>DoThing\<close> when no schema has an entry for its types.\<close>

definition exMethod :: MethodInfo where
  "exMethod = \<lparr>OriginalName = ''DoThing'', Name = ''dothing'', InputType = ''pkg.Req'',
     IsInputPointer = True, InputSchema = [], OutputType = ''pkg.Resp'',
     IsOutputPointer = False, OutputSchema = [], IsWorkflow = False, IsService = True\<rparr>"

definition exFile :: "decl list \<Rightarrow> walk_entry" where
  "exFile decls = \<lparr>entryPath = ''/app/services/orders/orders.go'', entryName = ''orders.go'',
     entryIsDir = False, entryErr = None,
     entryParse = Inr \<lparr>Imports = [[CHR 0x22] @ ''app/pkg'' @ [CHR 0x22]], Decls = decls\<rparr>\<rparr>"

text \<open>
  The service folder \<open>orders\<close> with one file, which declares \<open>Req\<close>, \<open>DoThing\<close> and
  \<open>Count\<close>; the folder \<open>empty\<close> with one file, which declares \<open>Count\<close> only.
\<close>

definition exOrders :: "walk_entry list" where
  "exOrders = [exFile [GenDecl Tok_IMPORT [OtherSpec],
     GenDecl Tok_TYPE [TypeSpec ''Req'' (StructType exReqFields)],
     FuncDeclD exDoThing, FuncDeclD exCount]]"

definition exEmpty :: "walk_entry list" where
  "exEmpty = [exFile [FuncDeclD exCount]]"




text \<open>
  The project as the first run finds it, without output folder; \<open>exGenerated\<close> is the
  adapter file that the second run finds in the walk of the root.
\<close>

definition exGenerated :: walk_entry where
  "exGenerated = \<lparr>entryPath = ''/app/.polycode/orders.go'', entryName = ''orders.go'',
     entryIsDir = False, entryErr = None,
     entryParse = Inr \<lparr>Imports = [],
       Decls = [GenDecl Tok_TYPE [TypeSpec ''Orders'' (StructType [])]]\<rparr>\<rparr>"

text \<open>What the run on the example project does.\<close>

definition exEffects :: "effect list" where
  "exEffects = [MkdirAll ''/app/.polycode'',
     WriteFile ''/app/.polycode/orders.go'' ''Ordersdothing'',
     MkdirAll ''/app/.polycode/definition'',
     WriteFile ''/app/.polycode/definition/orders.yml'' ''ordersDoThing'',
     GoImports ''/app/.polycode'']"

definition exProject :: project where
  "exProject = \<lparr>moduleResult = Inr ''app'', rootWalk = exOrders, servicesMissing = False,
     servicesEntries = Inr [(''orders'', True, exOrders), (''empty'', True, exEmpty)],
     polycodeMissing = True\<rparr>"

section \<open>Evaluation of the examples\<close>

lemmas parse_eval = processFunc_def validateFunctionParams_def resolveType_def
  qualifiedName_def IsLower_def ToLower_def isASCII_def lowerByte_def char_of_def
  bit_Suc_0_iff Let_def lookupDefs_def

lemma exDoThing_method:
  "processFunc exLib defs exDoThing =
     Inr (Some \<lparr>OriginalName = ''DoThing'', Name = ''dothing'', InputType = ''pkg.Req'',
       IsInputPointer = True, InputSchema = lookupDefs defs ''pkg.Req'',
       OutputType = ''pkg.Resp'', IsOutputPointer = False,
       OutputSchema = lookupDefs defs ''pkg.Resp'', IsWorkflow = False, IsService = True\<rparr>)"
  by (simp add: parse_eval exLib_def exDoThing_def del: lookupDefs_def)

lemma exCount_dropped: "processFunc l defs exCount = Inr None"
  by (simp add: parse_eval exCount_def)

lemma ex_recv: "Recv exDoThing = None" "Recv exCount = None" "Recv exPing = None"
  by (simp_all add: exDoThing_def exCount_def exPing_def)

lemma exFile_go:
  "HasSuffix (entryName (exFile ds)) ''.go''"
  "\<not> HasSuffix (entryName (exFile ds)) ''_test.go''"
  "HasSuffix (entryPath (exFile ds)) ''.go''"
  by (simp_all add: exFile_def HasSuffix_def)

lemma exFile_sel:
  "entryErr (exFile ds) = None" "\<not> entryIsDir (exFile ds)"
  "entryParse (exFile ds) = Inr \<lparr>Imports = [[CHR 0x22] @ ''app/pkg'' @ [CHR 0x22]], Decls = ds\<rparr>"
  by (simp_all add: exFile_def)

lemma exOrders_defs:
  "extractStructs h exOrders =
     ([''Req'' \<mapsto> [\<lparr>FieldName = ''A'', FieldType = ''int''\<rparr>,
        \<lparr>FieldName = ''Ref'', FieldType = ''&{pkg T}''\<rparr>,
        \<lparr>FieldName = ''Tags'', FieldType = ''&{61 <nil> string}''\<rparr>]], None)"
  by (simp add: extractStructs_def exOrders_def exFile_go exFile_sel exReqFields_def Sprint_def
      nested_def nestedOpt_def decimal.simps)

lemma exOrders_parse:
  "parseDir exLib defs exOrders =
     Inr ([\<lparr>OriginalName = ''DoThing'', Name = ''dothing'', InputType = ''pkg.Req'',
       IsInputPointer = True, InputSchema = lookupDefs defs ''pkg.Req'',
       OutputType = ''pkg.Resp'', IsOutputPointer = False,
       OutputSchema = lookupDefs defs ''pkg.Resp'', IsWorkflow = False, IsService = True\<rparr>],
       [''app/pkg''])"
  by (simp add: parseDir_def exOrders_def exFile_go exFile_sel exDoThing_method exCount_dropped
      unique_def Trim_def ex_recv)

lemma exEmpty_parse: "parseDir l defs exEmpty = Inr ([], [''app/pkg''])"
  by (simp add: parseDir_def exEmpty_def exFile_go exFile_sel exCount_dropped unique_def Trim_def
      ex_recv)

section \<open>The import list\<close>

lemma set_firstOccurrences: "set (firstOccurrences ps) = set ps"
  by (induction ps rule: firstOccurrences.induct) auto

lemma distinct_firstOccurrences: "distinct (firstOccurrences ps)"
  by (induction ps rule: firstOccurrences.induct) (auto simp: set_firstOccurrences)

text \<open>
  The loop of \<open>unique\<close> appends to its result the first occurrences of the strings that
  the map does not hold yet.
\<close>

lemma uniqueLoop_firstOccurrences:
  "uniqueLoop strs seen result =
     result @ firstOccurrences (filter (\<lambda>s. seen s = None) strs)"
proof (induction strs arbitrary: seen result)
  case Nil
  show ?case by simp
next
  case (Cons str strs)
  have "filter (\<lambda>s. (seen(str \<mapsto> True)) s = None) strs =
        filter (\<lambda>q. q \<noteq> str) (filter (\<lambda>s. seen s = None) strs)"
    by (induction strs) auto
  with Cons show ?case by simp
qed

text \<open>
  C8: for every sequence of import paths, the list that \<open>unique\<close> returns holds each
  distinct path of the sequence exactly once, in the order of the paths' first
  occurrences.
\<close>

theorem unique_first_occurrence:
  "distinct (unique paths) \<and> set (unique paths) = set paths \<and>
   unique paths = firstOccurrences paths"
  by (simp add: unique_def uniqueLoop_firstOccurrences set_firstOccurrences
      distinct_firstOccurrences)

text \<open>The example of the specification: a path of three files and a path of one.\<close>

lemma unique_example:
  "unique [''pkgA'', ''pkgB'', ''pkgA'', ''pkgA''] = [''pkgA'', ''pkgB'']"
  by (simp add: unique_def)

text \<open>
  The imports that \<open>parseDir\<close> returns are the collected import paths of the folder,
  passed through \<open>unique\<close>.
\<close>

lemma parseWalk_imports:
  "parseWalk l defs es (methods, imps) = Inr (methods', imps') \<Longrightarrow>
   imps' = imps @ collectedImports es"
proof (induction es arbitrary: methods imps)
  case Nil
  then show ?case by simp
next
  case (Cons e es)
  show ?case
  proof (cases "HasSuffix (entryName e) ''.go'' \<and> \<not> HasSuffix (entryName e) ''_test.go''")
    case False
    with Cons.prems have "parseWalk l defs es (methods, imps) = Inr (methods', imps')"
      by (auto split: option.splits)
    from Cons.IH [OF this] False show ?thesis by auto
  next
    case True
    with Cons.prems obtain node ms where
      node: "entryParse e = Inr node" and
      rest: "parseWalk l defs es (ms, imps @ map (\<lambda>v. Trim v (CHR 0x22)) (Imports node)) =
        Inr (methods', imps')"
      by (auto split: option.splits sum.splits)
    from Cons.IH [OF rest] node True show ?thesis by simp
  qed
qed

lemma parseDir_imports:
  assumes "parseDir l defs folder = Inr (methods, imps)"
  shows "imps = unique (collectedImports folder)"
proof -
  from assms obtain imps' where
    "parseWalk l defs folder ([], []) = Inr (methods, imps')" and "imps = unique imps'"
    by (auto simp: parseDir_def split: sum.splits)
  with parseWalk_imports [of l defs folder "[]" "[]" methods imps'] show ?thesis
    by simp
qed

section \<open>The record extractor\<close>

lemma structFields_append:
  "structFields h (fs @ gs) = structFields h fs @ structFields h gs"
  by (induction fs) (auto split: list.splits)

text \<open>
  C10: a field declaration that lists more than one name contributes one field to the
  schema, under the first of its names; the schema is that of the declarations before it,
  this field, and that of the declarations after it.
\<close>

theorem only_first_name_recorded:
  assumes "1 < length (Names f)"
  shows "structFields h (before @ f # after) =
     structFields h before @
       \<lparr>FieldName = hd (Names f), FieldType = Sprint h (Typ f)\<rparr> # structFields h after"
proof -
  from assms obtain n ns where "Names f = n # ns"
    by (cases "Names f") auto
  then show ?thesis
    by (simp add: structFields_append)
qed

theorem only_first_name_recorded_witness:
  "1 < length (Names (AstField [''A'', ''B''] (Ident ''int''))) \<and>
   structFields exHeap [AstField [''A'', ''B''] (Ident ''int''),
       AstField [''C''] (Ident ''bool'')] =
     [\<lparr>FieldName = ''A'', FieldType = ''int''\<rparr>, \<lparr>FieldName = ''C'', FieldType = ''bool''\<rparr>]"
proof -
  have h: "1 < length (Names (AstField [''A'', ''B''] (Ident ''int'')))"
    by simp
  show ?thesis
    using h only_first_name_recorded [OF h, of exHeap "[]" "[AstField [''C''] (Ident ''bool'')]"]
    by (simp add: Sprint_def)
qed

text \<open>
  C2: the type string of a captured field is to be the source text of the field's type.
  In the record \<^verbatim>\<open>type Req struct { A, B int; Ref pkg.T; Tags []string }\<close> of the example,
  the extractor records \<open>int\<close> for \<open>A\<close>, but the struct dump \<open>&{pkg T}\<close> for \<open>Ref\<close> and
  \<open>&{61 <nil> string}\<close>, with the position of the bracket, for \<open>Tags\<close>, whatever the heap.
\<close>

theorem field_type_is_struct_dump:
  "fst (extractStructs h exOrders) ''Req'' =
     Some [\<lparr>FieldName = ''A'', FieldType = ''int''\<rparr>,
       \<lparr>FieldName = ''Ref'', FieldType = ''&{pkg T}''\<rparr>,
       \<lparr>FieldName = ''Tags'', FieldType = ''&{61 <nil> string}''\<rparr>]"
  by (simp add: exOrders_defs)

text \<open>Only a type that is a plain identifier is recorded as written.\<close>

lemma Sprint_Ident: "Sprint h (Ident n) = n"
  by (simp add: Sprint_def)

lemma Sprint_qualified: "Sprint h (SelectorExpr (Ident pkg) sel) = ''&{'' @ pkg @ '' '' @ sel @ ''}''"
  by (simp add: Sprint_def nested_def)

section \<open>The convention parser\<close>

lemma validate_Inr:
  "validateFunctionParams fn = Inr ctx \<Longrightarrow>
   \<exists>ps sel. Params fn = Some ps \<and> 2 \<le> length ps \<and>
     Typ (ps ! 0) = SelectorExpr (Ident ''polycode'') sel \<and>
     (sel = ''ServiceContext'' \<and> ctx = ''Service'' \<or>
      sel = ''WorkflowContext'' \<and> ctx = ''Workflow'')"
  by (auto simp: validateFunctionParams_def split: option.splits if_splits expr.splits)

text \<open>What is known of a function for which the loop body appends a method.\<close>

lemma processFunc_Some:
  assumes "processFunc l defs fn = Inr (Some m)"
  shows "\<exists>c cs ctx ps inT inP r rs outT outP.
     FuncName fn = c # cs \<and> \<not> IsLower c \<and>
     validateFunctionParams fn = Inr ctx \<and>
     Params fn = Some ps \<and> 2 \<le> length ps \<and>
     resolveType (Typ (ps ! 1)) = Inr (inT, inP) \<and>
     Results fn = Some (r # rs) \<and>
     resolveType (Typ r) = Inr (outT, outP) \<and>
     inT \<noteq> [] \<and> outT \<noteq> [] \<and>
     m = \<lparr>OriginalName = FuncName fn, Name = ToLower l (FuncName fn),
          InputType = inT, IsInputPointer = inP, InputSchema = lookupDefs defs inT,
          OutputType = outT, IsOutputPointer = outP, OutputSchema = lookupDefs defs outT,
          IsWorkflow = (ctx = ''Workflow''), IsService = (ctx = ''Service'')\<rparr>"
  using assms
  by (auto simp: processFunc_def
      split: list.splits if_splits sum.splits option.splits prod.splits)

text \<open>Every method of the result was appended for a function of a file of the folder.\<close>

lemma parseDecls_methods:
  "parseDecls l defs ds methods = Inr methods' \<Longrightarrow> m \<in> set methods' \<Longrightarrow>
   m \<in> set methods \<or>
   (\<exists>fn. FuncDeclD fn \<in> set ds \<and> Recv fn = None \<and> processFunc l defs fn = Inr (Some m))"
proof (induction ds arbitrary: methods)
  case Nil
  then show ?case by simp
next
  case (Cons d ds)
  then show ?case
    by (fastforce split: decl.splits if_splits sum.splits option.splits)
qed

lemma parseWalk_methods:
  "parseWalk l defs es (methods, imps) = Inr (methods', imps') \<Longrightarrow> m \<in> set methods' \<Longrightarrow>
   m \<in> set methods \<or>
   (\<exists>e node fn. e \<in> set es \<and> entryParse e = Inr node \<and> FuncDeclD fn \<in> set (Decls node) \<and>
      Recv fn = None \<and> processFunc l defs fn = Inr (Some m))"
proof (induction es arbitrary: methods imps)
  case Nil
  then show ?case by simp
next
  case (Cons e es)
  show ?case
  proof (cases "entryErr e = None \<and> HasSuffix (entryName e) ''.go'' \<and>
      \<not> HasSuffix (entryName e) ''_test.go''")
    case False
    with Cons.prems have "parseWalk l defs es (methods, imps) = Inr (methods', imps')"
      by (auto split: option.splits if_splits)
    from Cons.IH [OF this Cons.prems(2)] show ?thesis by auto
  next
    case True
    with Cons.prems(1) obtain node ms where
      node: "entryParse e = Inr node" and
      decls: "parseDecls l defs (Decls node) methods = Inr ms" and
      rest: "parseWalk l defs es (ms, imps @ map (\<lambda>v. Trim v (CHR 0x22)) (Imports node)) =
        Inr (methods', imps')"
      by (auto split: sum.splits)
    from Cons.IH [OF rest Cons.prems(2)] show ?thesis
    proof
      assume "m \<in> set ms"
      from parseDecls_methods [OF decls this] node show ?thesis by auto
    next
      assume "\<exists>e node fn. e \<in> set es \<and> entryParse e = Inr node \<and>
        FuncDeclD fn \<in> set (Decls node) \<and> Recv fn = None \<and>
        processFunc l defs fn = Inr (Some m)"
      then show ?thesis by auto
    qed
  qed
qed

lemma parseDir_methods:
  assumes "parseDir l defs folder = Inr (methods, imps)" and "m \<in> set methods"
  shows "\<exists>e node fn. e \<in> set folder \<and> entryParse e = Inr node \<and>
      FuncDeclD fn \<in> set (Decls node) \<and> Recv fn = None \<and>
      processFunc l defs fn = Inr (Some m)"
proof -
  from assms(1) obtain imps' where "parseWalk l defs folder ([], []) = Inr (methods, imps')"
    by (auto simp: parseDir_def split: sum.splits)
  from parseWalk_methods [OF this assms(2)] show ?thesis by simp
qed

text \<open>
  C9: of every method that the parser returns, exactly one of \<open>IsService\<close> and
  \<open>IsWorkflow\<close> holds; the method was made for a function of the folder whose first
  parameter has the type \<open>polycode.sel\<close>, and \<open>IsService\<close> holds iff \<open>sel\<close> is
  \<open>ServiceContext\<close>, \<open>IsWorkflow\<close> iff it is \<open>WorkflowContext\<close>.
\<close>

theorem context_flags_exclusive:
  assumes "parseDir l defs folder = Inr (methods, imps)" and "m \<in> set methods"
  shows "IsService m \<noteq> IsWorkflow m \<and>
     (\<exists>e node fn ps sel. e \<in> set folder \<and> entryParse e = Inr node \<and>
        FuncDeclD fn \<in> set (Decls node) \<and> processFunc l defs fn = Inr (Some m) \<and>
        Params fn = Some ps \<and> 2 \<le> length ps \<and>
        Typ (ps ! 0) = SelectorExpr (Ident ''polycode'') sel \<and>
        IsService m = (sel = ''ServiceContext'') \<and>
        IsWorkflow m = (sel = ''WorkflowContext''))"
proof -
  from parseDir_methods [OF assms] obtain e node fn where
    src: "e \<in> set folder" "entryParse e = Inr node" "FuncDeclD fn \<in> set (Decls node)" and
    m: "processFunc l defs fn = Inr (Some m)"
    by blast
  from processFunc_Some [OF m] obtain ctx where
    ctx: "validateFunctionParams fn = Inr ctx" and
    flags: "IsWorkflow m = (ctx = ''Workflow'')" "IsService m = (ctx = ''Service'')"
    by force
  from validate_Inr [OF ctx] obtain ps sel where
    ps: "Params fn = Some ps" "2 \<le> length ps"
      "Typ (ps ! 0) = SelectorExpr (Ident ''polycode'') sel" and
    sel: "sel = ''ServiceContext'' \<and> ctx = ''Service'' \<or>
      sel = ''WorkflowContext'' \<and> ctx = ''Workflow''"
    by blast
  from sel flags have
    "IsService m \<noteq> IsWorkflow m \<and> IsService m = (sel = ''ServiceContext'') \<and>
     IsWorkflow m = (sel = ''WorkflowContext'')"
    by auto
  with src m ps show ?thesis by blast
qed

theorem context_flags_exclusive_witness:
  "parseDir exLib Map.empty exOrders = Inr ([exMethod], [''app/pkg'']) \<and>
   exMethod \<in> set [exMethod] \<and> IsService exMethod \<and> \<not> IsWorkflow exMethod"
proof -
  have p: "parseDir exLib Map.empty exOrders = Inr ([exMethod], [''app/pkg''])"
    by (simp add: exOrders_parse exMethod_def lookupDefs_def)
  have m: "exMethod \<in> set [exMethod]"
    by simp
  from context_flags_exclusive [OF p m] p show ?thesis
    by (simp add: exMethod_def)
qed

text \<open>
  The schema does not decide whether a function is recognised: with any schema the loop
  body gives what it gives with the empty one, the schemas attached.
\<close>

lemma processFunc_attach:
  "processFunc l defs fn =
     (case processFunc l Map.empty fn of
        Inl e \<Rightarrow> Inl e
      | Inr None \<Rightarrow> Inr None
      | Inr (Some m) \<Rightarrow> Inr (Some (attachSchemas defs m)))"
  by (simp add: processFunc_def attachSchemas_def
      split: list.splits sum.splits option.splits prod.splits)

lemma parseDecls_attach:
  "parseDecls l defs ds (map (attachSchemas defs) methods) =
     (case parseDecls l Map.empty ds methods of
        Inl e \<Rightarrow> Inl e
      | Inr methods' \<Rightarrow> Inr (map (attachSchemas defs) methods'))"
proof (induction ds arbitrary: methods)
  case Nil
  show ?case by simp
next
  case (Cons d ds)
  show ?case
  proof (cases d)
    case (FuncDeclD fn)
    show ?thesis
    proof (cases "Recv fn")
      case (Some recv)
      with FuncDeclD Cons.IH show ?thesis by simp
    next
      case True: None
      show ?thesis
      proof (cases "processFunc l Map.empty fn")
        case (Inl e)
        with processFunc_attach [of l defs fn] FuncDeclD True show ?thesis
          by simp
      next
        case (Inr r)
        show ?thesis
        proof (cases r)
          case None
          with Inr processFunc_attach [of l defs fn] FuncDeclD True Cons.IH show ?thesis
            by simp
        next
          case m: (Some m)
          with Inr processFunc_attach [of l defs fn] FuncDeclD True
            Cons.IH [of "methods @ [m]"] show ?thesis
            by simp
        qed
      qed
    qed
  next
    case (GenDecl t specs)
    with Cons.IH show ?thesis by simp
  next
    case BadDecl
    with Cons.IH show ?thesis by simp
  qed
qed

lemma parseWalk_attach:
  "parseWalk l defs es (map (attachSchemas defs) methods, imps) =
     (case parseWalk l Map.empty es (methods, imps) of
        Inl e \<Rightarrow> Inl e
      | Inr (methods', imps') \<Rightarrow> Inr (map (attachSchemas defs) methods', imps'))"
proof (induction es arbitrary: methods imps)
  case Nil
  show ?case by simp
next
  case (Cons e es)
  show ?case
  proof (cases "entryErr e = None \<and> HasSuffix (entryName e) ''.go'' \<and>
      \<not> HasSuffix (entryName e) ''_test.go''")
    case False
    then show ?thesis
      by (auto simp: Cons.IH split: option.splits)
  next
    case go: True
    show ?thesis
    proof (cases "entryParse e")
      case (Inl msg)
      with go show ?thesis by simp
    next
      case node: (Inr node)
      show ?thesis
      proof (cases "parseDecls l Map.empty (Decls node) methods")
        case (Inl err)
        with go node parseDecls_attach [of l defs "Decls node" methods] show ?thesis
          by simp
      next
        case (Inr methods')
        with go node parseDecls_attach [of l defs "Decls node" methods] show ?thesis
          by (simp add: Cons.IH)
      qed
    qed
  qed
qed

lemma parseDir_attach:
  "parseDir l defs folder =
     (case parseDir l Map.empty folder of
        Inl e \<Rightarrow> Inl e
      | Inr (methods, imps) \<Rightarrow> Inr (map (attachSchemas defs) methods, imps))"
  using parseWalk_attach [of l defs folder "[]" "[]"]
  by (simp add: parseDir_def split: sum.splits prod.splits)

text \<open>
  The schemas of every method that the parser returns are what the lookup of the method's
  type names in the given schema yields, the empty schema where there is no entry; with
  any other schema the parser returns without error as well, with the same imports.
\<close>

lemma schemas_are_lookups:
  assumes "parseDir l defs folder = Inr (methods, imps)" and "m \<in> set methods"
  shows "InputSchema m = (case defs (InputType m) of None \<Rightarrow> [] | Some fs \<Rightarrow> fs) \<and>
     OutputSchema m = (case defs (OutputType m) of None \<Rightarrow> [] | Some fs \<Rightarrow> fs) \<and>
     (\<exists>methods'. parseDir l defs' folder = Inr (methods', imps))"
proof -
  from parseDir_methods [OF assms] obtain fn where "processFunc l defs fn = Inr (Some m)"
    by blast
  from processFunc_Some [OF this] have
    "InputSchema m = lookupDefs defs (InputType m)"
    "OutputSchema m = lookupDefs defs (OutputType m)"
    by auto
  moreover from assms(1) obtain methods0 where "parseDir l Map.empty folder = Inr (methods0, imps)"
    using parseDir_attach [of l defs folder]
    by (auto split: sum.splits prod.splits)
  then have "\<exists>methods'. parseDir l defs' folder = Inr (methods', imps)"
    using parseDir_attach [of l defs' folder] by simp
  ultimately show ?thesis
    by (simp add: lookupDefs_def)
qed

text \<open>
  A free function whose name does not begin with a lower-case byte, whose first parameter
  is a context type, whose second
  parameter is a pointer to the qualified type \<open>pkg.req\<close> and whose first result is the
  bare qualified type \<open>pkg'.resp\<close> gives a method with the declared name, its lower-cased
  form, the input type \<open>pkg.req\<close> marked as a pointer and the output type \<open>pkg'.resp\<close>
  not marked as one; and whenever a method is made for a function, both its type names
  are non-empty.
\<close>

lemma method_of_conforming_function:
  "(FuncName fn = c # cs \<and> \<not> IsLower c \<and>
    Params fn = Some (p1 # p2 # ps) \<and>
    Typ p1 = SelectorExpr (Ident ''polycode'') ctx \<and>
    (ctx = ''ServiceContext'' \<or> ctx = ''WorkflowContext'') \<and>
    Typ p2 = StarExpr star (SelectorExpr (Ident pkg) req) \<and>
    Results fn = Some (r # rs) \<and>
    Typ r = SelectorExpr (Ident pkg') resp \<longrightarrow>
    processFunc l defs fn =
      Inr (Some \<lparr>OriginalName = FuncName fn, Name = ToLower l (FuncName fn),
        InputType = pkg @ ''.'' @ req, IsInputPointer = True,
        InputSchema = lookupDefs defs (pkg @ ''.'' @ req),
        OutputType = pkg' @ ''.'' @ resp, IsOutputPointer = False,
        OutputSchema = lookupDefs defs (pkg' @ ''.'' @ resp),
        IsWorkflow = (ctx = ''WorkflowContext''), IsService = (ctx = ''ServiceContext'')\<rparr>)) \<and>
   (processFunc l defs fn' = Inr (Some m) \<longrightarrow> InputType m \<noteq> [] \<and> OutputType m \<noteq> [])"
proof (intro conjI impI)
  assume "FuncName fn = c # cs \<and> \<not> IsLower c \<and>
    Params fn = Some (p1 # p2 # ps) \<and>
    Typ p1 = SelectorExpr (Ident ''polycode'') ctx \<and>
    (ctx = ''ServiceContext'' \<or> ctx = ''WorkflowContext'') \<and>
    Typ p2 = StarExpr star (SelectorExpr (Ident pkg) req) \<and>
    Results fn = Some (r # rs) \<and>
    Typ r = SelectorExpr (Ident pkg') resp"
  then show "processFunc l defs fn =
      Inr (Some \<lparr>OriginalName = FuncName fn, Name = ToLower l (FuncName fn),
        InputType = pkg @ ''.'' @ req, IsInputPointer = True,
        InputSchema = lookupDefs defs (pkg @ ''.'' @ req),
        OutputType = pkg' @ ''.'' @ resp, IsOutputPointer = False,
        OutputSchema = lookupDefs defs (pkg' @ ''.'' @ resp),
        IsWorkflow = (ctx = ''WorkflowContext''), IsService = (ctx = ''ServiceContext'')\<rparr>)"
    by (auto simp: processFunc_def validateFunctionParams_def resolveType_def
        qualifiedName_def)
next
  assume "processFunc l defs fn' = Inr (Some m)"
  from processFunc_Some [OF this] show "InputType m \<noteq> []" "OutputType m \<noteq> []"
    by auto
qed

lemma method_of_DoThing:
  "processFunc exLib Map.empty exDoThing =
     Inr (Some \<lparr>OriginalName = ''DoThing'', Name = ''dothing'', InputType = ''pkg.Req'',
       IsInputPointer = True, InputSchema = [], OutputType = ''pkg.Resp'',
       IsOutputPointer = False, OutputSchema = [], IsWorkflow = False, IsService = True\<rparr>) \<and>
   InputType exMethod \<noteq> [] \<and> OutputType exMethod \<noteq> []"
proof -
  have shape: "FuncName exDoThing = CHR ''D'' # ''oThing'' \<and> \<not> IsLower (CHR ''D'') \<and>
    Params exDoThing =
      Some (AstField [''ctx''] (SelectorExpr (Ident ''polycode'') ''ServiceContext'') #
        AstField [''req''] (StarExpr 52 (SelectorExpr (Ident ''pkg'') ''Req'')) # []) \<and>
    Typ (AstField [''ctx''] (SelectorExpr (Ident ''polycode'') ''ServiceContext'')) =
      SelectorExpr (Ident ''polycode'') ''ServiceContext'' \<and>
    (''ServiceContext'' = ''ServiceContext'' \<or> ''ServiceContext'' = ''WorkflowContext'') \<and>
    Typ (AstField [''req''] (StarExpr 52 (SelectorExpr (Ident ''pkg'') ''Req''))) =
      StarExpr 52 (SelectorExpr (Ident ''pkg'') ''Req'') \<and>
    Results exDoThing =
      Some (AstField [] (SelectorExpr (Ident ''pkg'') ''Resp'') # [AstField [] (Ident ''error'')]) \<and>
    Typ (AstField [] (SelectorExpr (Ident ''pkg'') ''Resp'')) =
      SelectorExpr (Ident ''pkg'') ''Resp''"
    by (simp add: exDoThing_def IsLower_def)
  have made: "processFunc exLib Map.empty exDoThing = Inr (Some exMethod)"
    by (simp add: exDoThing_method exMethod_def lookupDefs_def)
  have lower: "ToLower exLib ''DoThing'' = ''dothing''"
    by (simp add: ToLower_def isASCII_def lowerByte_def char_of_def bit_Suc_0_iff)
  from method_of_conforming_function [of exDoThing "CHR ''D''" "''oThing''"
      "AstField [''ctx''] (SelectorExpr (Ident ''polycode'') ''ServiceContext'')"
      "AstField [''req''] (StarExpr 52 (SelectorExpr (Ident ''pkg'') ''Req''))" "[]"
      "''ServiceContext''" 52 "''pkg''" "''Req''"
      "AstField [] (SelectorExpr (Ident ''pkg'') ''Resp'')" "[AstField [] (Ident ''error'')]"
      "''pkg''" "''Resp''" exLib Map.empty exDoThing exMethod]
    shape made lower
  show ?thesis
    by (simp add: exDoThing_def lookupDefs_def)
qed

text \<open>
  C6: every exported free function of the shape above is to give such a method. \<open>exUpper\<close>
  has the shape, and its name begins with the upper-case letter U+1E00. The loop reads the
  first byte of the name, E1, as a character of its own, the lower-case letter U+00E1, and
  passes over the function: no method is made for it, and the parsing of its folder
  returns no method and no error.
\<close>

theorem capital_beyond_first_byte_skipped:
  "firstRune (FuncName exUpper) = Some 0x1E00 \<and>
   FuncName exUpper = CHR 0xE1 # [CHR 0xB8, CHR 0x80] @ ''bc'' \<and> IsLower (CHR 0xE1) \<and>
   validateFunctionParams exUpper = Inr ''Service'' \<and>
   resolveType (StarExpr 50 (SelectorExpr (Ident ''pkg'') ''Req'')) = Inr (''pkg.Req'', True) \<and>
   resolveType (SelectorExpr (Ident ''pkg'') ''Resp'') = Inr (''pkg.Resp'', False) \<and>
   processFunc exLib Map.empty exUpper = Inr None \<and>
   parseDir exLib Map.empty [exFile [FuncDeclD exUpper]] = Inr ([], [''app/pkg''])"
proof -
  have r: "firstRune (FuncName exUpper) = Some 0x1E00"
    by (simp add: firstRune_def exUpper_def)
  have v: "validateFunctionParams exUpper = Inr ''Service''"
    by (simp add: validateFunctionParams_def exUpper_def)
  have t: "resolveType (StarExpr 50 (SelectorExpr (Ident ''pkg'') ''Req'')) = Inr (''pkg.Req'', True)"
    "resolveType (SelectorExpr (Ident ''pkg'') ''Resp'') = Inr (''pkg.Resp'', False)"
    by (simp_all add: resolveType_def qualifiedName_def)
  have rc: "Recv exUpper = None"
    by (simp add: exUpper_def)
  have f: "processFunc exLib Map.empty exUpper = Inr None"
    by (simp add: processFunc_def IsLower_def exUpper_def)
  have p: "parseDir exLib Map.empty [exFile [FuncDeclD exUpper]] = Inr ([], [''app/pkg''])"
    by (simp add: parseDir_def exFile_go exFile_sel f rc unique_def Trim_def)
  from r v t f p show ?thesis
    by (simp add: exUpper_def IsLower_def)
qed

section \<open>Services without methods\<close>

text \<open>
  C7: when the parser returns no method for a service folder, \<open>generateService\<close> returns
  without error and without any effect on the file system: no directory is made, no
  adapter and no definition written.
\<close>

theorem no_methods_no_artifacts:
  assumes "parseDir l defs servicePath = Inr ([], imps)"
  shows "generateService l sys appPath servicePath moduleName serviceName defs prodFlag =
     (None, [])"
  using assms by (simp add: generateService_def)

theorem no_methods_no_artifacts_witness:
  "parseDir exLib Map.empty exEmpty = Inr ([], [''app/pkg'']) \<and>
   generateService exLib exOs ''/app'' exEmpty ''app'' ''empty'' Map.empty True = (None, [])"
proof -
  have p: "parseDir exLib Map.empty exEmpty = Inr ([], [''app/pkg''])"
    by (simp add: exEmpty_parse)
  from no_methods_no_artifacts [OF p] p show ?thesis
    by simp
qed

section \<open>Functions that do not follow the convention\<close>

lemma length_le_numParams: "length ps \<le> numParams ps"
proof (induction ps)
  case Nil
  show ?case by (simp add: numParams_def)
next
  case (Cons p ps)
  then show ?case by (simp add: numParams_def)
qed

text \<open>
  A file that does not parse ends the parsing of its folder with the parser's error, as it
  is; this is what a doubly-qualified parameter type in the source leads to.
\<close>

lemma parse_error_returned:
  assumes "entryErr e = None" and "HasSuffix (entryName e) ''.go''"
    and "\<not> HasSuffix (entryName e) ''_test.go''" and "entryParse e = Inl msg"
  shows "parseDir l defs (e # es) = Inl (Error msg)"
  using assms by (simp add: parseDir_def)

text \<open>
  For a free function of a parsed file whose name does not begin with a lower-case byte,
  and which has fewer than two parameters or a first parameter whose type is not a context
  type, the loop body returns an error whose message holds the function's name.
\<close>

lemma invalid_first_parameter_rejected:
  assumes "FuncName fn = c # cs" and "\<not> IsLower c" and "parsedParams fn"
    and "firstParamInvalid fn"
  shows "processFunc l defs fn =
       Inl (Error (''function '' @ FuncName fn @ '' does not have enough parameters'')) \<or>
     processFunc l defs fn =
       Inl (Error (''function '' @ FuncName fn @
         '': first parameter must be polycode.ServiceContext or polycode.WorkflowContext''))"
proof (cases "Params fn")
  case None
  with assms(1,2) show ?thesis
    by (simp add: processFunc_def validateFunctionParams_def)
next
  case (Some ps)
  show ?thesis
  proof (cases "length ps < 2")
    case True
    with Some assms(1,2) show ?thesis
      by (simp add: processFunc_def validateFunctionParams_def)
  next
    case False
    with length_le_numParams [of ps] have "\<not> numParams ps < 2"
      by simp
    with assms(3,4) Some False obtain p ps' where
      ps: "ps = p # ps'" and bad: "\<not> isContextType (Typ p)" "plainQualifier (Typ p)"
      by (auto simp: firstParamInvalid_def parsedParams_def split: list.splits)
    from bad have "validateFunctionParams fn =
       Inl (Error (''function '' @ FuncName fn @
         '': first parameter must be polycode.ServiceContext or polycode.WorkflowContext''))"
      using Some False ps
      by (auto simp: validateFunctionParams_def isContextType_def plainQualifier_def
          split: expr.splits)
    with assms(1,2) show ?thesis
      by (simp add: processFunc_def)
  qed
qed

lemma exStart_rejected:
  "FuncName exStart = CHR ''S'' # ''tart'' \<and> \<not> IsLower (CHR ''S'') \<and>
   parsedParams exStart \<and> firstParamInvalid exStart \<and>
   (processFunc exLib Map.empty exStart =
      Inl (Error ''function Start does not have enough parameters'') \<or>
    processFunc exLib Map.empty exStart =
      Inl (Error ''function Start: first parameter must be polycode.ServiceContext or polycode.WorkflowContext''))"
proof -
  have n: "FuncName exStart = CHR ''S'' # ''tart''"
    by (simp add: exStart_def)
  have c: "\<not> IsLower (CHR ''S'')"
    by (simp add: IsLower_def)
  have w: "parsedParams exStart"
    by (simp add: parsedParams_def exStart_def plainQualifier_def)
  have i: "firstParamInvalid exStart"
    by (simp add: firstParamInvalid_def exStart_def numParams_def isContextType_def)
  from invalid_first_parameter_rejected [OF n c w i, of exLib Map.empty] n c w i show ?thesis
    by simp
qed

text \<open>
  C5: every exported free function with fewer than two parameters, or with a first
  parameter that is not of a context type, is to end the parsing with an error that names
  it. \<open>exUpperOne\<close> is exported, its name beginning with the upper-case letter U+1E00, and
  has one parameter, of type \<open>int\<close>. The loop reads the first byte of the name, E1, as
  the lower-case letter U+00E1 and passes over the function: no error is returned, and the
  parsing of its folder completes.
\<close>

theorem exported_function_passed_over:
  "firstRune (FuncName exUpperOne) = Some 0x1E00 \<and>
   Params exUpperOne = Some [AstField [''n''] (Ident ''int'')] \<and>
   numParams [AstField [''n''] (Ident ''int'')] = 1 \<and>
   parsedParams exUpperOne \<and> firstParamInvalid exUpperOne \<and>
   processFunc exLib Map.empty exUpperOne = Inr None \<and>
   parseDir exLib Map.empty [exFile [FuncDeclD exUpperOne]] = Inr ([], [''app/pkg''])"
proof -
  have r: "firstRune (FuncName exUpperOne) = Some 0x1E00"
    by (simp add: firstRune_def exUpperOne_def)
  have rc: "Recv exUpperOne = None"
    by (simp add: exUpperOne_def)
  have f: "processFunc exLib Map.empty exUpperOne = Inr None"
    by (simp add: processFunc_def IsLower_def exUpperOne_def)
  have p: "parseDir exLib Map.empty [exFile [FuncDeclD exUpperOne]] = Inr ([], [''app/pkg''])"
    by (simp add: parseDir_def exFile_go exFile_sel f rc unique_def Trim_def)
  from r f p show ?thesis
    by (simp add: exUpperOne_def numParams_def parsedParams_def plainQualifier_def
        firstParamInvalid_def)
qed

text \<open>
  On a selector on a selector, which is not the tree of any parsed parameter, the type
  assertion on the qualifier in \<open>validateFunctionParams\<close> has nothing to fall back on.
\<close>

lemma selector_on_selector_panics:
  "processFunc exLib Map.empty exDouble =
     Inl (Panic ''interface conversion: ast.Expr is not *ast.Ident'')"
  by (simp add: exDouble_def IsLower_def processFunc_def validateFunctionParams_def)

text \<open>
  A function that passes the validation and has a result is dropped without error when
  its second parameter or its first result is not of a recognised shape.
\<close>

lemma shape_mismatch_dropped:
  assumes "FuncName fn = c # cs" and "\<not> IsLower c"
    and "validateFunctionParams fn = Inr ctx" and "Params fn = Some ps"
    and "resolveType (Typ (ps ! 1)) = Inr (inT, inP)"
    and "Results fn = Some (r # rs)" and "resolveType (Typ r) = Inr (outT, outP)"
    and "inT = [] \<or> outT = []"
  shows "processFunc l defs fn = Inr None"
proof -
  from validate_Inr [OF assms(3)] assms(4) have "\<not> length ps < 2"
    by auto
  with assms show ?thesis
    by (auto simp: processFunc_def)
qed

text \<open>
  C4: a function that passes the validation and whose result does not match the pattern
  is to be left out without error, a function without results included. \<open>exPing\<close> is
  exported, passes the validation, has a pointer to a qualified type as second parameter
  and declares no result: reading its first result dereferences nil, and the parsing of
  the folder, and with it the generation for the service, ends in a panic.
\<close>

theorem function_without_results_panics:
  "validateFunctionParams exPing = Inr ''Service'' \<and> Results exPing = None \<and>
   processFunc exLib Map.empty exPing = Inl (Panic ''nil pointer dereference'') \<and>
   parseDir exLib Map.empty [exFile [FuncDeclD exPing]] =
     Inl (Panic ''nil pointer dereference'') \<and>
   generateService exLib exOs ''/app'' [exFile [FuncDeclD exPing]] ''app'' ''orders''
       Map.empty True =
     (Some (Panic ''nil pointer dereference''), [])"
proof -
  have v: "validateFunctionParams exPing = Inr ''Service''"
    by (simp add: validateFunctionParams_def exPing_def)
  have f: "processFunc exLib Map.empty exPing = Inl (Panic ''nil pointer dereference'')"
    by (simp add: parse_eval exPing_def)
  have p: "parseDir exLib Map.empty [exFile [FuncDeclD exPing]] =
      Inl (Panic ''nil pointer dereference'')"
    by (simp add: parseDir_def exFile_go exFile_sel ex_recv f)
  from v f p show ?thesis
    by (simp add: generateService_def exPing_def)
qed

section \<open>Regeneration\<close>

text \<open>
  A type name that the parser resolves is empty or holds a dot, so a record schema whose
  keys hold no dot has no entry for it.
\<close>

lemma resolveType_dot: "resolveType t = Inr (n, b) \<Longrightarrow> n = [] \<or> \<not> dotFree n"
  by (auto simp: resolveType_def qualifiedName_def dotFree_def split: expr.splits)

lemma processFunc_missing:
  assumes "\<And>k. \<not> dotFree k \<Longrightarrow> defs k = None"
  shows "processFunc l defs fn = processFunc l Map.empty fn"
proof -
  have "lookupDefs defs n = []" if "resolveType t = Inr (n, b)" and "n \<noteq> []" for t n b
    using resolveType_dot [OF that(1)] that(2) assms by (simp add: lookupDefs_def)
  then show ?thesis
    by (auto simp: processFunc_def lookupDefs_def
        split: list.splits sum.splits option.splits prod.splits)
qed

lemma parseDecls_missing:
  assumes "\<And>k. \<not> dotFree k \<Longrightarrow> defs k = None"
  shows "parseDecls l defs ds methods = parseDecls l Map.empty ds methods"
proof (induction ds arbitrary: methods)
  case Nil
  show ?case by simp
next
  case (Cons d ds)
  show ?case
    by (simp add: Cons.IH processFunc_missing [of defs, OF assms]
        split: decl.splits sum.splits option.splits)
qed

lemma parseWalk_missing:
  assumes "\<And>k. \<not> dotFree k \<Longrightarrow> defs k = None"
  shows "parseWalk l defs es acc = parseWalk l Map.empty es acc"
proof (induction es arbitrary: acc)
  case Nil
  show ?case by simp
next
  case (Cons e es)
  obtain methods imps where "acc = (methods, imps)"
    by (cases acc)
  then show ?case
    by (auto simp: Cons.IH parseDecls_missing [of defs, OF assms]
        split: option.splits sum.splits)
qed

lemma parseDir_missing:
  assumes "\<And>k. \<not> dotFree k \<Longrightarrow> defs k = None"
  shows "parseDir l defs folder = parseDir l Map.empty folder"
  by (simp add: parseDir_def parseWalk_missing [of defs, OF assms])

lemma generateService_missing:
  assumes "\<And>k. \<not> dotFree k \<Longrightarrow> defs k = None"
  shows "generateService l sys appPath servicePath moduleName serviceName defs prodFlag =
     generateService l sys appPath servicePath moduleName serviceName Map.empty prodFlag"
  by (simp add: generateService_def parseDir_missing [of defs, OF assms])

lemma generateEntries_missing:
  assumes "\<And>k. \<not> dotFree k \<Longrightarrow> defs k = None"
  shows "generateEntries l sys appPath moduleName defs prodFlag entries =
     generateEntries l sys appPath moduleName Map.empty prodFlag entries"
proof (induction entries)
  case Nil
  show ?case by simp
next
  case (Cons entry entries)
  obtain name isDir servicePath where "entry = (name, isDir, servicePath)"
    by (cases entry)
  then show ?case
    by (simp add: Cons.IH generateService_missing [of defs, OF assms]
        split: prod.splits option.splits)
qed

text \<open>The keys of the extracted schema are names of declared struct types.\<close>

lemma extractSpecs_None:
  "defs k = None \<Longrightarrow> k \<notin> set (specTypeNames ss) \<Longrightarrow> extractSpecs h ss defs k = None"
  by (induction ss arbitrary: defs) (auto split: spec.splits type_expr.splits)

lemma extractDecls_None:
  "defs k = None \<Longrightarrow> k \<notin> set (declTypeNames ds) \<Longrightarrow> extractDecls h ds defs k = None"
  by (induction ds arbitrary: defs) (auto simp: extractSpecs_None split: decl.splits)

lemma extractWalk_None:
  "defs k = None \<Longrightarrow> k \<notin> set (walkTypeNames es) \<Longrightarrow> fst (extractWalk h es defs) k = None"
  by (induction es arbitrary: defs) (auto simp: extractDecls_None split: option.splits sum.splits)

lemma extractStructs_missing:
  assumes "typeNamesDotFree root" and "\<not> dotFree k"
  shows "fst (extractStructs h root) k = None"
proof -
  from assms have "k \<notin> set (walkTypeNames root)"
    by (auto simp: typeNamesDotFree_def list_all_iff)
  then show ?thesis
    by (simp add: extractStructs_def extractWalk_None)
qed

lemma extractWalk_error: "snd (extractWalk h es defs) = walkError es"
  by (induction es arbitrary: defs) (auto split: option.splits sum.splits)

lemma extractStructs_error: "snd (extractStructs h root) = walkError root"
  by (simp add: extractStructs_def extractWalk_error)

lemma mkdir_after_formatter: "list_ex isMkdirAll (effects @ [GoImports dir]) = list_ex isMkdirAll effects"
  by (simp add: isMkdirAll_def)

text \<open>
  On a project whose struct type names hold no dot, a run does what it would do with the
  empty schema: neither the heap nor the schema reaches the result.
\<close>

lemma GenerateServices_missing:
  assumes "typeNamesDotFree (rootWalk p)"
  shows "GenerateServices l sys h p appPath prodFlag =
     (case moduleResult p of
        Inl msg \<Rightarrow> (Some (Error msg), [])
      | Inr moduleName \<Rightarrow>
          (case walkError (rootWalk p) of
             Some msg \<Rightarrow> (Some (Error msg), [])
           | None \<Rightarrow>
               (case (if servicesMissing p then (None, [])
                      else (case servicesEntries p of
                              Inl msg \<Rightarrow> (Some (Error msg), [])
                            | Inr entries \<Rightarrow>
                                generateEntries l sys appPath moduleName Map.empty prodFlag
                                  entries)) of
                  (Some err, effects) \<Rightarrow> (Some err, effects)
                | (None, effects) \<Rightarrow>
                    if \<not> (polycodeMissing p \<and> \<not> list_ex isMkdirAll effects) then
                      (case goimportsErr sys (Join l [appPath, ''.polycode'']) of
                         Some msg \<Rightarrow> (Some (Error msg), effects)
                       | None \<Rightarrow> (None, effects @ [GoImports (Join l [appPath, ''.polycode''])]))
                    else (None, effects))))"
proof -
  obtain defs where defs: "extractStructs h (rootWalk p) = (defs, walkError (rootWalk p))"
    by (metis prod.collapse extractStructs_error)
  have "defs k = None" if "\<not> dotFree k" for k
    using extractStructs_missing [OF assms that, of h] defs by simp
  then have same: "generateEntries l sys appPath moduleName defs prodFlag entries =
      generateEntries l sys appPath moduleName Map.empty prodFlag entries" for moduleName entries
    by (rule generateEntries_missing)
  show ?thesis
    by (simp add: GenerateServices_def defs same split: sum.splits option.splits)
qed

text \<open>
  C3: a second run of \<open>GenerateServices\<close> on the unchanged project returns the result of
  the first and makes the same directories and writes the same files with the same
  content, in the same order. The second run has another heap, finds in the walk of the
  root what the first run wrote (the walk ends with the same error, if any), and finds the
  output folder missing only if the first run found it missing and made no directory;
  the struct type names in both walks are identifiers, without dot.
\<close>

theorem regeneration_idempotent:
  assumes "typeNamesDotFree root" and "typeNamesDotFree root'"
    and "walkError root' = walkError root"
    and "GenerateServices l sys h (p\<lparr>rootWalk := root\<rparr>) appPath prodFlag = (result, effects)"
  shows "GenerateServices l sys h'
       (p\<lparr>rootWalk := root',
          polycodeMissing := polycodeMissing p \<and> \<not> list_ex isMkdirAll effects\<rparr>)
       appPath prodFlag =
     (result, effects)"
proof -
  let ?p = "p\<lparr>rootWalk := root\<rparr>" and
    ?p' = "p\<lparr>rootWalk := root',
      polycodeMissing := polycodeMissing p \<and> \<not> list_ex isMkdirAll effects\<rparr>"
  have first: "typeNamesDotFree (rootWalk ?p)" and second: "typeNamesDotFree (rootWalk ?p')"
    using assms(1,2) by simp_all
  from assms(4) show ?thesis
    unfolding GenerateServices_missing [OF first] GenerateServices_missing [OF second]
    by (auto simp: assms(3) mkdir_after_formatter
        split: sum.splits option.splits if_splits prod.splits)
qed

lemma exOrders_names: "typeNamesDotFree exOrders" "typeNamesDotFree (exOrders @ [exGenerated])"
  by (simp_all add: typeNamesDotFree_def dotFree_def exOrders_def exGenerated_def exFile_def)

lemma exOrders_walk: "walkError exOrders = None" "walkError (exOrders @ [exGenerated]) = None"
  by (simp_all add: exOrders_def exGenerated_def exFile_def)

lemma exLib_sel:
  "unicodeLower exLib s = s" "unicodeUpper exLib s = s"
  "Join exLib parts = foldr (\<lambda>a b. if b = [] then a else a @ ''/'' @ b) parts []"
  "execTemplate exLib info = Inr (ServiceStructName info @ concat (map Name (Methods info)))"
  "yamlMarshal exLib info = Inr (ServiceName info @ concat (map OriginalName (Methods info)))"
  by (simp_all add: exLib_def)

lemma exOs_sel:
  "mkdirAllErr exOs path = None" "writeFileErr exOs path content = None"
  "goimportsErr exOs path = None"
  by (simp_all add: exOs_def)

lemma exOrders_pascal: "toPascalCase exLib ''orders'' = ''Orders''"
  by (simp add: toPascalCase_def capitalize_def ToUpper_def isASCII_def upperByte_def
      stringOfByte_def char_of_def bit_Suc_0_iff)

lemma exOrders_generate:
  "generateService exLib exOs ''/app'' exOrders ''app'' ''orders'' defs True =
     (None, [MkdirAll ''/app/.polycode'',
       WriteFile ''/app/.polycode/orders.go'' ''Ordersdothing'',
       MkdirAll ''/app/.polycode/definition'',
       WriteFile ''/app/.polycode/definition/orders.yml'' ''ordersDoThing''])"
  by (simp add: generateService_def exOrders_parse exOrders_pascal generateServiceCode_def
      writeServiceDefinition_def Let_def exLib_sel exOs_sel)

lemma exEmpty_generate:
  "generateService l sys appPath exEmpty moduleName serviceName defs prodFlag = (None, [])"
  by (simp add: generateService_def exEmpty_parse)

lemma exProject_run: "GenerateServices exLib exOs h exProject ''/app'' True = (None, exEffects)"
  by (simp add: GenerateServices_def exProject_def exOrders_defs exOrders_generate
      exEmpty_generate exEffects_def isMkdirAll_def exLib_sel exOs_sel)

theorem regeneration_idempotent_witness:
  "typeNamesDotFree exOrders \<and> typeNamesDotFree (exOrders @ [exGenerated]) \<and>
   walkError (exOrders @ [exGenerated]) = walkError exOrders \<and>
   GenerateServices exLib exOs exHeap exProject ''/app'' True = (None, exEffects) \<and>
   GenerateServices exLib exOs exHeap'
       (exProject\<lparr>rootWalk := exOrders @ [exGenerated], polycodeMissing := False\<rparr>)
       ''/app'' True =
     (None, exEffects)"
proof -
  have w: "walkError (exOrders @ [exGenerated]) = walkError exOrders"
    by (simp add: exOrders_walk)
  have same: "exProject\<lparr>rootWalk := exOrders\<rparr> = exProject"
    by (simp add: exProject_def)
  have run: "GenerateServices exLib exOs exHeap (exProject\<lparr>rootWalk := exOrders\<rparr>) ''/app'' True =
      (None, exEffects)"
    by (simp add: same exProject_run)
  have made: "(polycodeMissing exProject \<and> \<not> list_ex isMkdirAll exEffects) = False"
    by (simp add: exEffects_def isMkdirAll_def)
  from regeneration_idempotent [OF exOrders_names w run, of exHeap'] exOrders_names w run
  show ?thesis
    by (simp add: same made)
qed

section \<open>The schema cross-reference\<close>

text \<open>
  The extractor files a struct under its bare name, an identifier; the parser looks a
  type up under its qualified name, which holds a dot. With the schema that the extractor
  builds, no lookup succeeds, and every method is returned with empty schemas.
\<close>

lemma extracted_schema_never_attached:
  assumes "typeNamesDotFree root"
    and "parseDir l (fst (extractStructs h root)) folder = Inr (methods, imps)"
    and "m \<in> set methods"
  shows "InputSchema m = [] \<and> OutputSchema m = []"
proof -
  have "fst (extractStructs h root) k = None" if "\<not> dotFree k" for k
    using assms(1) that by (rule extractStructs_missing)
  then have "parseDir l (fst (extractStructs h root)) folder = parseDir l Map.empty folder"
    by (rule parseDir_missing)
  with assms(2) have "parseDir l Map.empty folder = Inr (methods, imps)"
    by simp
  from parseDir_methods [OF this assms(3)] obtain fn where
    "processFunc l Map.empty fn = Inr (Some m)"
    by blast
  from processFunc_Some [OF this] show ?thesis
    by (auto simp: lookupDefs_def)
qed




end
